theory Spec2Isabelle
  imports Main
begin

section \<open>The host's dynamic values\<close>

text \<open>
  \<^verbatim>\<open>compile.cc\<close> receives its input as V8 handles. The values are data: the primitives,
  arrays, and objects made of own data properties whose prototype is the standard one
  (the type has no function values, so no property of a value is callable).
  A string is the sequence of its UTF-8 bytes, which is what \<^verbatim>\<open>String::Utf8Value\<close> hands
  to the C++ side. All this code can do with a number is test that it is neither an
  object nor a string and let the host convert it to text, so a number is held as the text
  that the host prints for it: \<open>JsNumber ''5''\<close> is 5, \<open>JsNumber ''0.5''\<close> is a half and
  \<open>JsNumber ''1e+21''\<close> is ten to the 21st.
  An object is the list of its own enumerable properties in the host's enumeration order;
  a well-formed object has pairwise distinct keys.
\<close>

datatype js_value =
    JsUndefined
  | JsNull
  | JsBoolean bool
  | JsNumber string
  | JsString string
  | JsArray "js_value list"
  | JsObject "(string \<times> js_value) list"

text \<open>\<^verbatim>\<open>Exception::TypeError(message)\<close>; the only kind of exception this file throws.\<close>

datatype js_exception = TypeError string

fun IsObject :: "js_value \<Rightarrow> bool" where
  "IsObject (JsArray xs) = True"
| "IsObject (JsObject props) = True"
| "IsObject v = False"

fun IsString :: "js_value \<Rightarrow> bool" where
  "IsString (JsString s) = True"
| "IsString v = False"

subsection \<open>Conversion to text\<close>

function decimal :: "nat \<Rightarrow> string" where
  "decimal n = (if n < 10 then [''0123456789'' ! n]
                else decimal (n div 10) @ [''0123456789'' ! (n mod 10)])"
  by pat_completeness auto
termination
  by (relation "measure (\<lambda>n. n)") auto

declare decimal.simps [simp del]

fun join_comma :: "string list \<Rightarrow> string" where
  "join_comma [] = []"
| "join_comma [s] = s"
| "join_comma (s # t # ts) = s @ '','' @ join_comma (t # ts)"

text \<open>
  The host's \<^verbatim>\<open>ToString\<close> conversion, which \<^verbatim>\<open>String::Utf8Value\<close> applies to whatever
  handle it is given; \<open>None\<close> when the conversion throws. An object is converted by its
  \<^verbatim>\<open>toString\<close> method, then by \<^verbatim>\<open>valueOf\<close>. An object without an own \<^verbatim>\<open>toString\<close>
  inherits the standard method and prints as \<^verbatim>\<open>[object Object]\<close>. An own \<^verbatim>\<open>toString\<close>
  property is not callable (no value here is), and \<^verbatim>\<open>valueOf\<close>, own or inherited, gives
  no primitive, so the conversion throws. An array is converted by the inherited
  \<^verbatim>\<open>join\<close>: its elements' texts, with nothing for \<^verbatim>\<open>undefined\<close> and \<^verbatim>\<open>null\<close>, separated
  by commas; it throws when the conversion of an element does.
\<close>

fun ToString :: "js_value \<Rightarrow> string option"
  and elements_text :: "js_value list \<Rightarrow> string list option" where
  "ToString JsUndefined = Some ''undefined''"
| "ToString JsNull = Some ''null''"
| "ToString (JsBoolean b) = Some (if b then ''true'' else ''false'')"
| "ToString (JsNumber text) = Some text"
| "ToString (JsString s) = Some s"
| "ToString (JsArray xs) = map_option join_comma (elements_text xs)"
| "ToString (JsObject props) =
     (if map_of props ''toString'' \<noteq> None then None else Some ''[object Object]'')"
| "elements_text [] = Some []"
| "elements_text (x # xs) =
     (case (if x = JsUndefined \<or> x = JsNull then Some [] else ToString x) of
        None \<Rightarrow> None
      | Some text \<Rightarrow> map_option ((#) text) (elements_text xs))"

text \<open>
  \<^verbatim>\<open>std::string(const char *)\<close> and \<^verbatim>\<open>String::New(const char *)\<close> read a C string: the
  bytes before the first NUL.
\<close>

definition c_str :: "string \<Rightarrow> string" where
  "c_str s = takeWhile (\<lambda>c. c \<noteq> CHR 0x00) s"

text \<open>
  \<^verbatim>\<open>
  static std::string StringFromJsString(Handle<String> js_string) {
    String::Utf8Value utf8_string(js_string);
    return std::string(*utf8_string);
  }
  \<close>
  The handle is only a cast: every caller but two passes a value it has not tested with
  \<^verbatim>\<open>IsString\<close>. When the conversion throws, \<^verbatim>\<open>String::Utf8Value\<close> catches the exception
  and holds the null pointer, and \<^verbatim>\<open>std::string\<close> of the null pointer is undefined:
  that is the result \<open>None\<close>, which every caller below turns into \<open>Undefined_Behaviour\<close>.
\<close>

definition StringFromJsString :: "js_value \<Rightarrow> string option" where
  "StringFromJsString js_string = map_option c_str (ToString js_string)"

text \<open>
  The characters of a string value, for \<^verbatim>\<open>String::Concat\<close>, which the code applies to a
  handle it has tested with \<^verbatim>\<open>IsString\<close>.
\<close>

fun string_chars :: "js_value \<Rightarrow> string" where
  "string_chars (JsString s) = s"
| "string_chars v = []"

subsection \<open>Property access\<close>

text \<open>
  The own enumerable properties, in enumeration order. An array's are its indices.
\<close>

fun own_properties :: "js_value \<Rightarrow> (string \<times> js_value) list" where
  "own_properties (JsObject props) = props"
| "own_properties (JsArray xs) = zip (map decimal [0..<length xs]) xs"
| "own_properties v = []"

text \<open>
  \<^verbatim>\<open>
  template<typename T>
  Handle<T> ObjectGet(Handle<Object> object, const char *key) {
    return Handle<T>::Cast(object->Get(String::NewSymbol(key)));
  }
  \<close>
  An absent property reads as \<^verbatim>\<open>undefined\<close>. The cast to \<^verbatim>\<open>T\<close> checks nothing, so the
  result is whatever value the property holds. \<^verbatim>\<open>Get\<close> is defined on objects only:
  the callers below either test \<^verbatim>\<open>IsObject\<close> first or are modelled with an explicit
  undefined-behaviour branch.
\<close>

definition ObjectGet :: "js_value \<Rightarrow> string \<Rightarrow> js_value" where
  "ObjectGet object key =
     (case map_of (own_properties object) key of
        Some v \<Rightarrow> v
      | None \<Rightarrow>
          (case object of
             JsArray xs \<Rightarrow> if key = ''length'' then JsNumber (decimal (length xs)) else JsUndefined
           | _ \<Rightarrow> JsUndefined))"

section \<open>The typed rule tree\<close>

text \<open>
  Modelled from the spec: the rule classes and their constructor functions \<^verbatim>\<open>blank\<close>,
  \<^verbatim>\<open>choice\<close>, \<^verbatim>\<open>err\<close>, \<^verbatim>\<open>pattern\<close>, \<^verbatim>\<open>repeat\<close>, \<^verbatim>\<open>seq\<close>, \<^verbatim>\<open>str\<close>, \<^verbatim>\<open>sym\<close> (here
  \<open>sym_rule\<close>) and the class
  \<^verbatim>\<open>Grammar\<close> come from the header \<^verbatim>\<open>tree_sitter/compiler.h\<close> of the compiler library,
  which is not part of these sources. The spec gives the rule as a closed tagged variant
  with one case per constructor function. A \<^verbatim>\<open>rule_ptr\<close> is a shared pointer, so it may be
  null: \<open>None\<close> is \<^verbatim>\<open>rule_ptr()\<close>, and the children of a composite rule are pointers.
\<close>

datatype rule =
    Blank
  | Choice "rule option list"
  | Err "rule option"
  | Pattern string
  | Repeat "rule option"
  | Seq "rule option list"
  | Str string
  | Sym string

type_synonym rule_ptr = "rule option"

definition blank :: rule_ptr where "blank = Some Blank"
definition choice :: "rule_ptr list \<Rightarrow> rule_ptr" where "choice members = Some (Choice members)"
definition err :: "rule_ptr \<Rightarrow> rule_ptr" where "err r = Some (Err r)"
definition pattern :: "string \<Rightarrow> rule_ptr" where "pattern s = Some (Pattern s)"
definition repeat :: "rule_ptr \<Rightarrow> rule_ptr" where "repeat r = Some (Repeat r)"
definition seq :: "rule_ptr list \<Rightarrow> rule_ptr" where "seq members = Some (Seq members)"
definition str :: "string \<Rightarrow> rule_ptr" where "str s = Some (Str s)"
definition sym_rule :: "string \<Rightarrow> rule_ptr" where "sym_rule s = Some (Sym s)"

section \<open>Outcomes\<close>

text \<open>
  A call either returns a value, having thrown (scheduled in the isolate, by
  \<^verbatim>\<open>ThrowException\<close>) the listed exceptions in that order, or reaches an operation whose
  behaviour C++ and the V8 interface leave undefined (a method of \<^verbatim>\<open>Array\<close> or \<^verbatim>\<open>Object\<close>
  called through a handle that was cast from a value of another kind), having thrown the
  listed exceptions before it. \<^verbatim>\<open>ThrowException\<close> does not unwind: the C++ code goes on
  until it returns.
\<close>

datatype 'a outcome =
    Undefined_Behaviour "js_exception list"
  | Returns 'a "js_exception list"

subsection \<open>The size of what a property read returns\<close>

lemma size_map_of:
  "map_of props key = Some v \<Longrightarrow> size v < Suc (size_list (size_prod (\<lambda>_. 0) size) props)"
  by (induction props) (auto split: if_splits)

lemma size_element: "v \<in> set xs \<Longrightarrow> size v < Suc (size_list size xs)"
  by (induction xs) auto

lemma size_zip_lookup:
  assumes "map_of (zip ks xs) key = Some v"
  shows "size v < Suc (size_list size xs)"
proof -
  have "(key, v) \<in> set (zip ks xs)"
    using assms by (rule map_of_SomeD)
  then have "v \<in> set xs"
    by (rule set_zip_rightD)
  then show ?thesis
    by (rule size_element)
qed

lemma size_ObjectGet: "IsObject object \<Longrightarrow> size (ObjectGet object key) < size object"
  by (cases object)
     (auto simp: ObjectGet_def split: option.splits dest: size_map_of size_zip_lookup)

lemma size_members:
  assumes "IsObject object" and "ObjectGet object key = JsArray js_members"
  shows "size_list size js_members < size object"
proof -
  have "size (ObjectGet object key) < size object"
    using assms(1) by (rule size_ObjectGet)
  then show ?thesis
    using assms(2) by simp
qed

section \<open>The rule builder\<close>

text \<open>
  \<^verbatim>\<open>rule_ptr RuleFromJsRule(Handle<Object> js_rule)\<close>. The two member loops of the source
  (the \<^verbatim>\<open>CHOICE\<close> and the \<^verbatim>\<open>SEQ\<close> branch) are the same loop, \<open>members_loop\<close>:
  \<^verbatim>\<open>
    for (uint32_t i = 0; i < length; i++) {
      Handle<Object> js_member = ArrayGet<Object>(js_members, i);
      members.push_back(RuleFromJsRule(js_member));
    }
  \<close>
  \<^verbatim>\<open>js_members->Length()\<close> is defined for an array only, and \<^verbatim>\<open>StringFromJsString\<close>
  only where the host can convert the value to text.
\<close>

function RuleFromJsRule :: "js_value \<Rightarrow> rule_ptr outcome"
  and members_loop :: "js_value list \<Rightarrow> rule_ptr list outcome" where
  "RuleFromJsRule js_rule =
     (if \<not> IsObject js_rule then
        Returns None [TypeError ''Expected rule to be an object'']
      else let js_type = ObjectGet js_rule ''type'' in
      if \<not> IsString js_type then
        Returns None [TypeError ''Expected rule type to be a string'']
      else case StringFromJsString js_type of
        None \<Rightarrow> Undefined_Behaviour []
      | Some type \<Rightarrow>
      if type = ''BLANK'' then Returns blank []
      else if type = ''CHOICE'' then
        (case ObjectGet js_rule ''members'' of
           JsArray js_members \<Rightarrow>
             (case members_loop js_members of
                Undefined_Behaviour thrown \<Rightarrow> Undefined_Behaviour thrown
              | Returns members thrown \<Rightarrow> Returns (choice members) thrown)
         | _ \<Rightarrow> Undefined_Behaviour [])
      else if type = ''ERROR'' then
        (case RuleFromJsRule (ObjectGet js_rule ''value'') of
           Undefined_Behaviour thrown \<Rightarrow> Undefined_Behaviour thrown
         | Returns r thrown \<Rightarrow> Returns (err r) thrown)
      else if type = ''PATTERN'' then
        (case StringFromJsString (ObjectGet js_rule ''value'') of
           None \<Rightarrow> Undefined_Behaviour []
         | Some text \<Rightarrow> Returns (pattern text) [])
      else if type = ''REPEAT'' then
        (case RuleFromJsRule (ObjectGet js_rule ''value'') of
           Undefined_Behaviour thrown \<Rightarrow> Undefined_Behaviour thrown
         | Returns r thrown \<Rightarrow> Returns (repeat r) thrown)
      else if type = ''SEQ'' then
        (case ObjectGet js_rule ''members'' of
           JsArray js_members \<Rightarrow>
             (case members_loop js_members of
                Undefined_Behaviour thrown \<Rightarrow> Undefined_Behaviour thrown
              | Returns members thrown \<Rightarrow> Returns (seq members) thrown)
         | _ \<Rightarrow> Undefined_Behaviour [])
      else if type = ''STRING'' then
        (case StringFromJsString (ObjectGet js_rule ''value'') of
           None \<Rightarrow> Undefined_Behaviour []
         | Some text \<Rightarrow> Returns (str text) [])
      else if type = ''SYMBOL'' then
        (case StringFromJsString (ObjectGet js_rule ''name'') of
           None \<Rightarrow> Undefined_Behaviour []
         | Some text \<Rightarrow> Returns (sym_rule text) [])
      else
        Returns None [TypeError (''Unexpected rule type: '' @ string_chars js_type)])"
| "members_loop [] = Returns [] []"
| "members_loop (js_member # rest) =
     (case RuleFromJsRule js_member of
        Undefined_Behaviour thrown \<Rightarrow> Undefined_Behaviour thrown
      | Returns member thrown \<Rightarrow>
          (case members_loop rest of
             Undefined_Behaviour thrown' \<Rightarrow> Undefined_Behaviour (thrown @ thrown')
           | Returns members thrown' \<Rightarrow> Returns (member # members) (thrown @ thrown')))"
  by pat_completeness auto

termination RuleFromJsRule
  by (relation "measure (case_sum size (size_list size))")
     (auto simp: size_ObjectGet size_members)

declare RuleFromJsRule.simps [simp del]

section \<open>The grammar assembler\<close>

text \<open>
  Modelled from the spec: \<^verbatim>\<open>tree_sitter::Grammar\<close>, built from the vector of named rules.
  In the code the grammar's name is not part of this value: \<^verbatim>\<open>Compile\<close> hands it to the
  compiler beside the grammar.
\<close>

datatype grammar = Grammar "(string \<times> rule_ptr) list"

text \<open>
  \<^verbatim>\<open>js_rules->GetOwnPropertyNames()\<close>, defined on objects only. For an array V8 lists the
  indices as numbers; \<^verbatim>\<open>StringFromJsString\<close> and \<^verbatim>\<open>Get\<close> then see them as the decimal
  keys.
\<close>

definition GetOwnPropertyNames :: "js_value \<Rightarrow> string list option" where
  "GetOwnPropertyNames object =
     (if IsObject object then Some (map fst (own_properties object)) else None)"

fun after :: "js_exception list \<Rightarrow> 'a outcome \<Rightarrow> 'a outcome" where
  "after thrown (Undefined_Behaviour thrown') = Undefined_Behaviour (thrown @ thrown')"
| "after thrown (Returns x thrown') = Returns x (thrown @ thrown')"

text \<open>
  The loop of \<^verbatim>\<open>GrammarFromJsGrammar\<close> over the rule names, with the vector \<^verbatim>\<open>rules\<close>
  built so far:
  \<^verbatim>\<open>
    for (uint32_t i = 0; i < length; i++) {
      Local<String> js_rule_name = Local<String>::Cast(rule_names->Get(i));
      string rule_name = StringFromJsString(js_rule_name);
      rule_ptr rule = RuleFromJsRule(Handle<Object>::Cast(js_rules->Get(js_rule_name)));
      if (rule.get()) {
        rules.push_back({ rule_name, rule });
      } else {
        return { Grammar({}), false };
      }
    }
    return { Grammar(rules), true };
  \<close>
\<close>

fun rules_loop ::
  "js_value \<Rightarrow> string list \<Rightarrow> (string \<times> rule_ptr) list \<Rightarrow> (grammar \<times> bool) outcome" where
  "rules_loop js_rules [] rules = Returns (Grammar rules, True) []"
| "rules_loop js_rules (js_rule_name # rest) rules =
     (case StringFromJsString (JsString js_rule_name) of
        None \<Rightarrow> Undefined_Behaviour []
      | Some rule_name \<Rightarrow>
     (case RuleFromJsRule (ObjectGet js_rules js_rule_name) of
        Undefined_Behaviour thrown \<Rightarrow> Undefined_Behaviour thrown
      | Returns rule thrown \<Rightarrow>
          if rule \<noteq> None then
            after thrown (rules_loop js_rules rest (rules @ [(rule_name, rule)]))
          else Returns (Grammar [], False) thrown))"

text \<open>
  \<^verbatim>\<open>
  pair<Grammar, bool> GrammarFromJsGrammar(Handle<Object> js_grammar) {
    Handle<Object> js_rules = ObjectGet<Object>(js_grammar, "rules");
    if (!js_rules->IsObject())
      ThrowException(Exception::TypeError(String::New("Expected grammar rules to be an object")));

    vector<pair<string, rule_ptr>> rules;
    Local<Array> rule_names = js_rules->GetOwnPropertyNames();
    ...
  \<close>
  The function does not test \<^verbatim>\<open>js_grammar\<close> (its one caller does), and the \<^verbatim>\<open>if\<close> has no
  \<^verbatim>\<open>return\<close>: after the throw, control reaches \<^verbatim>\<open>GetOwnPropertyNames\<close>.
\<close>

definition GrammarFromJsGrammar :: "js_value \<Rightarrow> (grammar \<times> bool) outcome" where
  "GrammarFromJsGrammar js_grammar =
     (if \<not> IsObject js_grammar then Undefined_Behaviour []
      else let js_rules = ObjectGet js_grammar ''rules'';
               thrown = (if \<not> IsObject js_rules
                         then [TypeError ''Expected grammar rules to be an object'']
                         else [])
      in case GetOwnPropertyNames js_rules of
           None \<Rightarrow> Undefined_Behaviour thrown
         | Some rule_names \<Rightarrow> after thrown (rules_loop js_rules rule_names []))"

section \<open>The boundary operation\<close>

text \<open>
  Modelled from the spec: \<^verbatim>\<open>tree_sitter::compile\<close>, \<^verbatim>\<open>Conflict\<close> and \<^verbatim>\<open>GrammarError\<close> belong
  to the compiler library. The compiler is a parameter of \<open>Compile\<close>: a function from the
  grammar and its name to the generated text, the conflicts and the error, if any
  (the null pointer is \<open>None\<close>).
\<close>

datatype conflict = Conflict string

datatype grammar_error = GrammarError string

type_synonym compiler = "grammar \<Rightarrow> string \<Rightarrow> string \<times> conflict list \<times> grammar_error option"

text \<open>
  \<^verbatim>\<open>Handle<Value> Compile(const Arguments &args)\<close>. \<^verbatim>\<open>args[0]\<close> is \<^verbatim>\<open>undefined\<close> when the
  call has no argument, and \<^verbatim>\<open>ThrowException\<close> returns \<^verbatim>\<open>undefined\<close>. The outcome holds the
  value handed back to the host and the calls made to the compiler, in order.
\<close>

definition Compile ::
  "compiler \<Rightarrow> js_value list \<Rightarrow> (js_value \<times> (grammar \<times> string) list) outcome" where
  "Compile compile args =
     (let js_grammar = (case args of [] \<Rightarrow> JsUndefined | arg0 # _ \<Rightarrow> arg0) in
      if \<not> IsObject js_grammar then
        Returns (JsUndefined, []) [TypeError ''Expected grammar to be an object'']
      else let js_name = ObjectGet js_grammar ''name'' in
      if \<not> IsString js_name then
        Returns (JsUndefined, []) [TypeError ''Expected grammar name to be a string'']
      else case StringFromJsString js_name of
        None \<Rightarrow> Undefined_Behaviour []
      | Some name \<Rightarrow>
     (case GrammarFromJsGrammar js_grammar of
        Undefined_Behaviour thrown \<Rightarrow> Undefined_Behaviour thrown
      | Returns grammarResult thrown \<Rightarrow>
          if \<not> snd grammarResult then Returns (JsUndefined, []) thrown
          else let result = compile (fst grammarResult) name
               in Returns (JsString (c_str (fst result)), [(fst grammarResult, name)]) thrown))"

section \<open>Notions the properties are stated with\<close>

text \<open>The eight type strings that \<^verbatim>\<open>RuleFromJsRule\<close> compares against, in its order.\<close>

definition recognized_types :: "string list" where
  "recognized_types =
     [''BLANK'', ''CHOICE'', ''ERROR'', ''PATTERN'', ''REPEAT'', ''SEQ'', ''STRING'', ''SYMBOL'']"

text \<open>
  A well-formed rule node, after the table of the specification's data model: an object
  whose \<^verbatim>\<open>type\<close> is one of the eight strings and whose required field has the required
  shape, the nested nodes being well-formed too.
\<close>

function well_formed :: "js_value \<Rightarrow> bool" where
  "well_formed node =
     (if \<not> IsObject node then False
      else case ObjectGet node ''type'' of
         JsString type \<Rightarrow>
           if type = ''BLANK'' then True
           else if type = ''CHOICE'' \<or> type = ''SEQ'' then
             (case ObjectGet node ''members'' of
                JsArray members \<Rightarrow> list_all well_formed members
              | _ \<Rightarrow> False)
           else if type = ''ERROR'' \<or> type = ''REPEAT'' then
             well_formed (ObjectGet node ''value'')
           else if type = ''PATTERN'' \<or> type = ''STRING'' then
             IsString (ObjectGet node ''value'')
           else if type = ''SYMBOL'' then IsString (ObjectGet node ''name'')
           else False
       | _ \<Rightarrow> False)"
  by pat_completeness auto
termination well_formed
proof (relation "measure size")
  show "wf (measure size)" by simp
next
  fix node :: js_value and members member
  assume "\<not> \<not> IsObject node" and "ObjectGet node ''members'' = JsArray members"
    and "member \<in> set members"
  then show "(member, node) \<in> measure size"
    using size_members [of node "''members''" members] size_element [of member members]
    by simp
next
  fix node :: js_value
  assume "\<not> \<not> IsObject node"
  then show "(ObjectGet node ''value'', node) \<in> measure size"
    by (simp add: size_ObjectGet)
qed

declare well_formed.simps [simp del]

text \<open>
  A compiler that hands back some text together with an error, to observe what
  \<open>Compile\<close> does with the error.
\<close>

definition error_compiler :: compiler where
  "error_compiler g name = (''partial text'', [], Some (GrammarError ''unresolved conflict''))"

text \<open>A compiler that reports no error; its text names the grammar.\<close>

definition naming_compiler :: compiler where
  "naming_compiler g name = (''parser of '' @ name, [], None)"

section \<open>Evaluating the model\<close>

lemmas evaluate =
  RuleFromJsRule.simps ObjectGet_def StringFromJsString_def c_str_def
  blank_def choice_def err_def pattern_def repeat_def seq_def str_def sym_rule_def
  GetOwnPropertyNames_def GrammarFromJsGrammar_def Compile_def Let_def

section \<open>Failures inside a composite rule\<close>

text \<open>
  C1. The claim: when the build of a member of a \<^verbatim>\<open>CHOICE\<close> or \<^verbatim>\<open>SEQ\<close> node fails,
  \<^verbatim>\<open>RuleFromJsRule\<close> passes the failure on at once and never makes a Choice or Seq with
  some children valid and others missing. The code does not do that: the member loops push
  whatever the recursive call returns, the null pointer included, and go on. For the node
  \<^verbatim>\<open>{type: "CHOICE", members: [{type: "BLANK"}, 5]}\<close> the second member fails (it throws
  "Expected rule to be an object" and returns the null pointer), and the call returns a
  Choice holding the Blank and the null pointer. The same holds for \<^verbatim>\<open>SEQ\<close>.
\<close>

theorem RuleFromJsRule_keeps_failed_member:
  "RuleFromJsRule (JsObject [(''type'', JsString ''CHOICE''),
       (''members'', JsArray [JsObject [(''type'', JsString ''BLANK'')], JsNumber ''5''])])
     = Returns (Some (Choice [Some Blank, None])) [TypeError ''Expected rule to be an object'']
   \<and> RuleFromJsRule (JsObject [(''type'', JsString ''SEQ''),
       (''members'', JsArray [JsObject [(''type'', JsString ''BLANK'')], JsNumber ''5''])])
     = Returns (Some (Seq [Some Blank, None])) [TypeError ''Expected rule to be an object'']"
  by (simp add: evaluate)

text \<open>
  C3. The claim: a node of type \<^verbatim>\<open>CHOICE\<close> with no \<^verbatim>\<open>members\<close> field fails with a
  structural error. The code never tests the field: it casts the absent property
  (\<^verbatim>\<open>undefined\<close>) to an array handle and calls \<^verbatim>\<open>Length()\<close> on it. For the node
  \<^verbatim>\<open>{type: "CHOICE"}\<close> the call reaches that undefined operation, and no exception has been
  thrown before it.
\<close>

theorem RuleFromJsRule_choice_without_members:
  "RuleFromJsRule (JsObject [(''type'', JsString ''CHOICE'')]) = Undefined_Behaviour []"
  by (simp add: evaluate)

section \<open>The type string\<close>

text \<open>
  C6, as the claim states it, fails. The claim: every node whose \<^verbatim>\<open>type\<close> is a string outside
  the eight recognized ones fails with the unknown-type error. The code compares the C
  string of the type, so a type with a NUL byte is read up to that byte: the string
  \<^verbatim>\<open>BLANK\<close> followed by NUL and \<^verbatim>\<open>!\<close> is not one of the eight, and the node builds a Blank
  without any exception.
\<close>

theorem RuleFromJsRule_type_read_as_C_string:
  "''BLANK'' @ [CHR 0x00, CHR ''!''] \<notin> set recognized_types
   \<and> RuleFromJsRule (JsObject [(''type'', JsString (''BLANK'' @ [CHR 0x00, CHR ''!'']))])
       = Returns (Some Blank) []"
  by (simp add: evaluate recognized_types_def)

text \<open>
  C6, amended. For every object node whose \<^verbatim>\<open>type\<close> is a string that, read up to its first
  NUL byte (if it has one), is none of the eight recognized strings, \<^verbatim>\<open>RuleFromJsRule\<close>
  throws the one exception "Unexpected rule type: " followed by exactly the whole type
  string, and returns the null pointer: no rule is built.
\<close>

theorem RuleFromJsRule_unknown_type:
  assumes "IsObject node" and "ObjectGet node ''type'' = JsString type"
    and "c_str type \<notin> set recognized_types"
  shows "RuleFromJsRule node = Returns None [TypeError (''Unexpected rule type: '' @ type)]"
  using assms
  by (simp add: RuleFromJsRule.simps [of node] StringFromJsString_def recognized_types_def)

theorem RuleFromJsRule_unknown_type_witness:
  "IsObject (JsObject [(''type'', JsString ''TOKEN''), (''value'', JsString ''x'')])
   \<and> ObjectGet (JsObject [(''type'', JsString ''TOKEN''), (''value'', JsString ''x'')]) ''type''
       = JsString ''TOKEN''
   \<and> c_str ''TOKEN'' \<notin> set recognized_types
   \<and> RuleFromJsRule (JsObject [(''type'', JsString ''TOKEN''), (''value'', JsString ''x'')])
       = Returns None [TypeError ''Unexpected rule type: TOKEN'']"
  using RuleFromJsRule_unknown_type
    [of "JsObject [(''type'', JsString ''TOKEN''), (''value'', JsString ''x'')]" "''TOKEN''"]
  by (simp add: ObjectGet_def c_str_def recognized_types_def)

section \<open>The payload of a leaf rule\<close>

text \<open>Every value that is not an object has a text.\<close>

lemma ToString_primitive: "\<not> IsObject v \<Longrightarrow> \<exists>text. ToString v = Some text"
  by (cases v) simp_all




section \<open>Well-formed nodes\<close>

text \<open>The member loop on members that all build, without an exception, to a rule.\<close>

lemma members_loop_all:
  assumes "\<forall>member \<in> set members. \<exists>r. RuleFromJsRule member = Returns (Some r) []"
  shows "\<exists>rs. members_loop members = Returns rs []
           \<and> list_all2 (\<lambda>member r. RuleFromJsRule member = Returns r []) members rs"
  using assms
proof (induction members)
  case Nil
  then show ?case by simp
next
  case (Cons member rest)
  then obtain r where r: "RuleFromJsRule member = Returns (Some r) []"
    by auto
  from Cons obtain rs where rs: "members_loop rest = Returns rs []"
    "list_all2 (\<lambda>member r. RuleFromJsRule member = Returns r []) rest rs"
    by auto
  from r rs show ?case by simp
qed

lemma RuleFromJsRule_CHOICE:
  assumes "IsObject node" and "ObjectGet node ''type'' = JsString ''CHOICE''"
    and "ObjectGet node ''members'' = JsArray members"
  shows "RuleFromJsRule node =
           (case members_loop members of
              Undefined_Behaviour thrown \<Rightarrow> Undefined_Behaviour thrown
            | Returns rs thrown \<Rightarrow> Returns (choice rs) thrown)"
  using assms by (simp add: RuleFromJsRule.simps [of node] StringFromJsString_def c_str_def)

lemma RuleFromJsRule_SEQ:
  assumes "IsObject node" and "ObjectGet node ''type'' = JsString ''SEQ''"
    and "ObjectGet node ''members'' = JsArray members"
  shows "RuleFromJsRule node =
           (case members_loop members of
              Undefined_Behaviour thrown \<Rightarrow> Undefined_Behaviour thrown
            | Returns rs thrown \<Rightarrow> Returns (seq rs) thrown)"
  using assms by (simp add: RuleFromJsRule.simps [of node] StringFromJsString_def c_str_def)

lemma RuleFromJsRule_ERROR:
  assumes "IsObject node" and "ObjectGet node ''type'' = JsString ''ERROR''"
  shows "RuleFromJsRule node =
           (case RuleFromJsRule (ObjectGet node ''value'') of
              Undefined_Behaviour thrown \<Rightarrow> Undefined_Behaviour thrown
            | Returns r thrown \<Rightarrow> Returns (err r) thrown)"
  using assms by (simp add: RuleFromJsRule.simps [of node] StringFromJsString_def c_str_def)

lemma RuleFromJsRule_REPEAT:
  assumes "IsObject node" and "ObjectGet node ''type'' = JsString ''REPEAT''"
  shows "RuleFromJsRule node =
           (case RuleFromJsRule (ObjectGet node ''value'') of
              Undefined_Behaviour thrown \<Rightarrow> Undefined_Behaviour thrown
            | Returns r thrown \<Rightarrow> Returns (repeat r) thrown)"
  using assms by (simp add: RuleFromJsRule.simps [of node] StringFromJsString_def c_str_def)

lemma RuleFromJsRule_leaf:
  assumes "IsObject node" and "ObjectGet node ''type'' = JsString type"
    and "type = ''BLANK''
         \<or> ((type = ''PATTERN'' \<or> type = ''STRING'') \<and> IsString (ObjectGet node ''value''))
         \<or> (type = ''SYMBOL'' \<and> IsString (ObjectGet node ''name''))"
  shows "\<exists>r. RuleFromJsRule node = Returns (Some r) []"
proof -
  have converts: "\<exists>s. StringFromJsString v = Some s" if "IsString v" for v
    using that by (cases v) (simp_all add: StringFromJsString_def)
  from assms(3) show ?thesis
  proof (elim disjE conjE)
    assume "type = ''BLANK''"
    with assms(1,2) show ?thesis
      by (simp add: RuleFromJsRule.simps [of node] StringFromJsString_def c_str_def blank_def)
  next
    assume "type = ''PATTERN''" and "IsString (ObjectGet node ''value'')"
    with assms(1,2) converts [of "ObjectGet node ''value''"] show ?thesis
      by (auto simp add: RuleFromJsRule.simps [of node] StringFromJsString_def c_str_def
            pattern_def)
  next
    assume "type = ''STRING''" and "IsString (ObjectGet node ''value'')"
    with assms(1,2) converts [of "ObjectGet node ''value''"] show ?thesis
      by (auto simp add: RuleFromJsRule.simps [of node] StringFromJsString_def c_str_def
            str_def)
  next
    assume "type = ''SYMBOL''" and "IsString (ObjectGet node ''name'')"
    with assms(1,2) converts [of "ObjectGet node ''name''"] show ?thesis
      by (auto simp add: RuleFromJsRule.simps [of node] StringFromJsString_def c_str_def
            sym_rule_def)
  qed
qed

lemma well_formed_cases [consumes 1, case_names leaf composite wrapper]:
  assumes wf: "well_formed node"
  obtains
    (leaf) type where "IsObject node" and "ObjectGet node ''type'' = JsString type"
      and "type = ''BLANK''
           \<or> ((type = ''PATTERN'' \<or> type = ''STRING'') \<and> IsString (ObjectGet node ''value''))
           \<or> (type = ''SYMBOL'' \<and> IsString (ObjectGet node ''name''))"
  | (composite) type members where "IsObject node" and "ObjectGet node ''type'' = JsString type"
      and "type = ''CHOICE'' \<or> type = ''SEQ''"
      and "ObjectGet node ''members'' = JsArray members" and "list_all well_formed members"
  | (wrapper) type where "IsObject node" and "ObjectGet node ''type'' = JsString type"
      and "type = ''ERROR'' \<or> type = ''REPEAT''" and "well_formed (ObjectGet node ''value'')"
proof -
  from wf have obj: "IsObject node"
    by (subst (asm) well_formed.simps) (simp split: if_splits)
  from wf obj obtain type where type: "ObjectGet node ''type'' = JsString type"
    by (subst (asm) well_formed.simps) (simp split: js_value.splits)
  show thesis
  proof (cases "type = ''CHOICE'' \<or> type = ''SEQ''")
    case True
    with wf obj type obtain members where
      "ObjectGet node ''members'' = JsArray members" "list_all well_formed members"
      by (subst (asm) well_formed.simps) (auto split: js_value.splits)
    with obj type True show thesis by (rule composite)
  next
    case no_members: False
    show thesis
    proof (cases "type = ''ERROR'' \<or> type = ''REPEAT''")
      case True
      with wf obj type have "well_formed (ObjectGet node ''value'')"
        by (subst (asm) well_formed.simps) auto
      with obj type True show thesis by (rule wrapper)
    next
      case False
      with wf obj type no_members
      have "type = ''BLANK''
           \<or> ((type = ''PATTERN'' \<or> type = ''STRING'') \<and> IsString (ObjectGet node ''value''))
           \<or> (type = ''SYMBOL'' \<and> IsString (ObjectGet node ''name''))"
        by (subst (asm) well_formed.simps) (auto split: if_splits)
      with obj type show thesis by (rule leaf)
    qed
  qed
qed

lemma well_formed_builds:
  "well_formed node \<Longrightarrow> \<exists>r. RuleFromJsRule node = Returns (Some r) []"
proof (induction node rule: well_formed.induct)
  case (1 node)
  from "1.prems" show ?case
  proof (cases rule: well_formed_cases)
    case (leaf type)
    then show ?thesis by (rule RuleFromJsRule_leaf)
  next
    case (composite type members)
    have "\<exists>r. RuleFromJsRule member = Returns (Some r) []" if "member \<in> set members" for member
    proof (rule "1.IH"(1) [OF _ composite(2) _ composite(3) composite(4) that])
      show "\<not> \<not> IsObject node" using composite(1) by simp
      show "type \<noteq> ''BLANK''" using composite(3) by auto
      show "well_formed member" using composite(5) that by (simp add: list_all_iff)
    qed
    then have "\<forall>member \<in> set members. \<exists>r. RuleFromJsRule member = Returns (Some r) []"
      by blast
    from members_loop_all [OF this] obtain rs where rs: "members_loop members = Returns rs []"
      by blast
    from composite(3) show ?thesis
    proof
      assume "type = ''CHOICE''"
      with composite rs show ?thesis
        by (simp add: RuleFromJsRule_CHOICE choice_def)
    next
      assume "type = ''SEQ''"
      with composite rs show ?thesis
        by (simp add: RuleFromJsRule_SEQ seq_def)
    qed
  next
    case (wrapper type)
    have "\<exists>r. RuleFromJsRule (ObjectGet node ''value'') = Returns (Some r) []"
    proof (rule "1.IH"(2) [OF _ wrapper(2) _ _ wrapper(3) wrapper(4)])
      show "\<not> \<not> IsObject node" using wrapper(1) by simp
      show "type \<noteq> ''BLANK''" using wrapper(3) by auto
      show "\<not> (type = ''CHOICE'' \<or> type = ''SEQ'')" using wrapper(3) by auto
    qed
    then obtain r where r: "RuleFromJsRule (ObjectGet node ''value'') = Returns (Some r) []"
      by blast
    from wrapper(3) show ?thesis
    proof
      assume "type = ''ERROR''"
      with wrapper r show ?thesis
        by (simp add: RuleFromJsRule_ERROR err_def)
    next
      assume "type = ''REPEAT''"
      with wrapper r show ?thesis
        by (simp add: RuleFromJsRule_REPEAT repeat_def)
    qed
  qed
qed

lemma composite_children:
  assumes wf: "well_formed node"
    and type: "ObjectGet node ''type'' = JsString type"
    and composite: "type = ''CHOICE'' \<or> type = ''SEQ''"
    and members: "ObjectGet node ''members'' = JsArray members"
  shows "\<exists>rs. RuleFromJsRule node
                  = Returns (Some (if type = ''CHOICE'' then Choice rs else Seq rs)) []
           \<and> list_all2 (\<lambda>member r. RuleFromJsRule member = Returns r []) members rs"
proof -
  from wf have obj: "IsObject node"
    by (subst (asm) well_formed.simps) (simp split: if_splits)
  from wf obj type composite members have "list_all well_formed members"
    by (subst (asm) well_formed.simps) auto
  then have "\<forall>member \<in> set members. \<exists>r. RuleFromJsRule member = Returns (Some r) []"
    by (simp add: list_all_iff well_formed_builds)
  from members_loop_all [OF this] obtain rs where
    rs: "members_loop members = Returns rs []"
    and children: "list_all2 (\<lambda>member r. RuleFromJsRule member = Returns r []) members rs"
    by blast
  from composite have "RuleFromJsRule node
      = Returns (Some (if type = ''CHOICE'' then Choice rs else Seq rs)) []"
  proof
    assume "type = ''CHOICE''"
    with obj type members rs show ?thesis
      by (simp add: RuleFromJsRule_CHOICE choice_def)
  next
    assume "type = ''SEQ''"
    with obj type members rs show ?thesis
      by (simp add: RuleFromJsRule_SEQ seq_def)
  qed
  with children show ?thesis by blast
qed

text \<open>
  C7. For every well-formed \<^verbatim>\<open>CHOICE\<close> or \<^verbatim>\<open>SEQ\<close> node, \<^verbatim>\<open>RuleFromJsRule\<close> returns, without
  an exception, the Choice or Seq whose children are, position by position, what
  \<^verbatim>\<open>RuleFromJsRule\<close> returns for the members: same length, same order. In particular, when
  the members are \<open>[A, B]\<close> and \<open>A\<close> and \<open>B\<close> build to different rules, a well-formed node
  of the same type with the members \<open>[B, A]\<close> builds to a different rule tree.
\<close>

theorem RuleFromJsRule_member_order:
  assumes wf: "well_formed node"
    and type: "ObjectGet node ''type'' = JsString type"
    and composite: "type = ''CHOICE'' \<or> type = ''SEQ''"
    and members: "ObjectGet node ''members'' = JsArray members"
  shows "(\<exists>rs. RuleFromJsRule node
                  = Returns (Some (if type = ''CHOICE'' then Choice rs else Seq rs)) []
            \<and> list_all2 (\<lambda>member r. RuleFromJsRule member = Returns r []) members rs)
         \<and> (\<forall>swapped A B.
               members = [A, B] \<and> well_formed swapped
               \<and> ObjectGet swapped ''type'' = JsString type
               \<and> ObjectGet swapped ''members'' = JsArray [B, A]
               \<and> RuleFromJsRule A \<noteq> RuleFromJsRule B
               \<longrightarrow> RuleFromJsRule swapped \<noteq> RuleFromJsRule node)"
proof (intro conjI allI impI)
  show "\<exists>rs. RuleFromJsRule node
                = Returns (Some (if type = ''CHOICE'' then Choice rs else Seq rs)) []
          \<and> list_all2 (\<lambda>member r. RuleFromJsRule member = Returns r []) members rs"
    using wf type composite members by (rule composite_children)
next
  fix swapped A B
  assume swap: "members = [A, B] \<and> well_formed swapped
       \<and> ObjectGet swapped ''type'' = JsString type
       \<and> ObjectGet swapped ''members'' = JsArray [B, A]
       \<and> RuleFromJsRule A \<noteq> RuleFromJsRule B"
  from composite_children [OF wf type composite members] swap
  obtain a b where node: "RuleFromJsRule node
        = Returns (Some (if type = ''CHOICE'' then Choice [a, b] else Seq [a, b])) []"
    and a: "RuleFromJsRule A = Returns a []" and b: "RuleFromJsRule B = Returns b []"
    by (auto simp: list_all2_Cons1)
  from swap have "well_formed swapped" "ObjectGet swapped ''type'' = JsString type"
    "ObjectGet swapped ''members'' = JsArray [B, A]"
    by simp_all
  from composite_children [OF this(1) this(2) composite this(3)] a b
  have swapped: "RuleFromJsRule swapped
        = Returns (Some (if type = ''CHOICE'' then Choice [b, a] else Seq [b, a])) []"
    by (auto simp: list_all2_Cons1)
  from swap a b have "a \<noteq> b" by auto
  with node swapped show "RuleFromJsRule swapped \<noteq> RuleFromJsRule node"
    by (simp split: if_splits)
qed

theorem RuleFromJsRule_member_order_witness:
  "well_formed (JsObject [(''type'', JsString ''SEQ''),
      (''members'', JsArray [JsObject [(''type'', JsString ''STRING''), (''value'', JsString ''a'')],
                             JsObject [(''type'', JsString ''SYMBOL''), (''name'', JsString ''b'')]])])
   \<and> ObjectGet (JsObject [(''type'', JsString ''SEQ''),
      (''members'', JsArray [JsObject [(''type'', JsString ''STRING''), (''value'', JsString ''a'')],
                             JsObject [(''type'', JsString ''SYMBOL''), (''name'', JsString ''b'')]])])
        ''type'' = JsString ''SEQ''
   \<and> ObjectGet (JsObject [(''type'', JsString ''SEQ''),
      (''members'', JsArray [JsObject [(''type'', JsString ''STRING''), (''value'', JsString ''a'')],
                             JsObject [(''type'', JsString ''SYMBOL''), (''name'', JsString ''b'')]])])
        ''members''
       = JsArray [JsObject [(''type'', JsString ''STRING''), (''value'', JsString ''a'')],
                  JsObject [(''type'', JsString ''SYMBOL''), (''name'', JsString ''b'')]]
   \<and> RuleFromJsRule (JsObject [(''type'', JsString ''SEQ''),
      (''members'', JsArray [JsObject [(''type'', JsString ''STRING''), (''value'', JsString ''a'')],
                             JsObject [(''type'', JsString ''SYMBOL''), (''name'', JsString ''b'')]])])
       = Returns (Some (Seq [Some (Str ''a''), Some (Sym ''b'')])) []
   \<and> RuleFromJsRule (JsObject [(''type'', JsString ''SEQ''),
      (''members'', JsArray [JsObject [(''type'', JsString ''SYMBOL''), (''name'', JsString ''b'')],
                             JsObject [(''type'', JsString ''STRING''), (''value'', JsString ''a'')]])])
       \<noteq> RuleFromJsRule (JsObject [(''type'', JsString ''SEQ''),
      (''members'', JsArray [JsObject [(''type'', JsString ''STRING''), (''value'', JsString ''a'')],
                             JsObject [(''type'', JsString ''SYMBOL''), (''name'', JsString ''b'')]])])"
  using RuleFromJsRule_member_order
    [of "JsObject [(''type'', JsString ''SEQ''),
      (''members'', JsArray [JsObject [(''type'', JsString ''STRING''), (''value'', JsString ''a'')],
                             JsObject [(''type'', JsString ''SYMBOL''), (''name'', JsString ''b'')]])]"
        "''SEQ''"
        "[JsObject [(''type'', JsString ''STRING''), (''value'', JsString ''a'')],
          JsObject [(''type'', JsString ''SYMBOL''), (''name'', JsString ''b'')]]"]
  by (simp add: evaluate well_formed.simps)

section \<open>Failures of the grammar assembler\<close>

text \<open>
  C4. The claim: when the rules mapping is absent or not an object, \<^verbatim>\<open>GrammarFromJsGrammar\<close>
  fails with the error for the rules and does not go past the violation. The code throws
  the error and goes on, since the \<^verbatim>\<open>if\<close> lacks its \<^verbatim>\<open>return\<close>: for the description
  \<^verbatim>\<open>{name: "g"}\<close> it throws "Expected grammar rules to be an object" and then calls
  \<^verbatim>\<open>GetOwnPropertyNames\<close> on \<^verbatim>\<open>undefined\<close>, an undefined operation; it returns no pair.
\<close>

theorem GrammarFromJsGrammar_without_rules:
  "GrammarFromJsGrammar (JsObject [(''name'', JsString ''g'')])
     = Undefined_Behaviour [TypeError ''Expected grammar rules to be an object'']"
  by (simp add: evaluate)

text \<open>
  What the assembler does when the call for an entry itself returns the null pointer
  (the entry is not an object, or its type is missing, not a string or unknown), the
  entries before it having built: the pair is the empty grammar with the flag cleared,
  and on such a pair \<open>Compile\<close> returns \<^verbatim>\<open>undefined\<close> without calling the compiler.
\<close>

lemma rules_loop_null_entry:
  assumes "\<forall>name \<in> set before. \<exists>r thrown.
             RuleFromJsRule (ObjectGet js_rules name) = Returns (Some r) thrown"
    and "RuleFromJsRule (ObjectGet js_rules js_rule_name) = Returns None thrown"
  shows "\<exists>thrown'. rules_loop js_rules (before @ js_rule_name # rest) rules
                      = Returns (Grammar [], False) thrown'"
  using assms
proof (induction before arbitrary: rules)
  case Nil
  then show ?case by (simp add: StringFromJsString_def)
next
  case (Cons name before)
  from Cons.prems(1) obtain r t where
    r: "RuleFromJsRule (ObjectGet js_rules name) = Returns (Some r) t"
    by auto
  from Cons.prems have "\<exists>thrown'. rules_loop js_rules (before @ js_rule_name # rest)
      (rules @ [(c_str name, Some r)]) = Returns (Grammar [], False) thrown'"
    by (intro Cons.IH) auto
  with r show ?case by (auto simp add: StringFromJsString_def)
qed

lemma Compile_without_grammar:
  assumes "IsObject js_grammar" and "ObjectGet js_grammar ''name'' = JsString js_name"
    and "GrammarFromJsGrammar js_grammar = Returns (g, False) thrown"
  shows "Compile compile (js_grammar # more_args) = Returns (JsUndefined, []) thrown"
  using assms by (simp add: Compile_def StringFromJsString_def)

text \<open>
  C5. The claim: when the build of some rule entry fails, \<^verbatim>\<open>GrammarFromJsGrammar\<close> produces no
  grammar and the compiler is never called; a grammar exists exactly when every entry
  validated. The assembler stops only when \<^verbatim>\<open>RuleFromJsRule\<close> returns the null pointer for
  the entry itself. A failure below the top of an entry does not make the entry's pointer
  null (see C1), so for \<^verbatim>\<open>{name: "g", rules: {a: {type: "CHOICE", members: [5]}}}\<close> the
  entry throws "Expected rule to be an object", and still the assembler returns a grammar
  with the flag set, and \<open>Compile\<close> calls the compiler with it.
\<close>

theorem Compile_after_failed_entry:
  "GrammarFromJsGrammar (JsObject [(''name'', JsString ''g''),
       (''rules'', JsObject [(''a'', JsObject [(''type'', JsString ''CHOICE''),
                                               (''members'', JsArray [JsNumber ''5''])])])])
     = Returns (Grammar [(''a'', Some (Choice [None]))], True)
         [TypeError ''Expected rule to be an object'']
   \<and> Compile compile [JsObject [(''name'', JsString ''g''),
       (''rules'', JsObject [(''a'', JsObject [(''type'', JsString ''CHOICE''),
                                               (''members'', JsArray [JsNumber ''5''])])])]]
     = Returns (JsString (c_str (fst (compile (Grammar [(''a'', Some (Choice [None]))]) ''g''))),
                [(Grammar [(''a'', Some (Choice [None]))], ''g'')])
         [TypeError ''Expected rule to be an object'']"
  by (simp add: evaluate)

section \<open>The boundary operation on a description\<close>

text \<open>
  C8. For the description \<^verbatim>\<open>{name: "g", rules: {start: {type: "STRING", value: "x"}}}\<close>
  assembly succeeds, without any exception, with the one entry \<open>(start, Str x)\<close>, and
  \<open>Compile\<close> hands that grammar to the compiler under the name \<open>g\<close> (the name travels
  beside the grammar, not inside it) and returns the compiler's text.
\<close>

theorem Compile_start_example:
  "GrammarFromJsGrammar (JsObject [(''name'', JsString ''g''),
       (''rules'', JsObject [(''start'', JsObject [(''type'', JsString ''STRING''),
                                                   (''value'', JsString ''x'')])])])
     = Returns (Grammar [(''start'', Some (Str ''x''))], True) []
   \<and> Compile compile [JsObject [(''name'', JsString ''g''),
       (''rules'', JsObject [(''start'', JsObject [(''type'', JsString ''STRING''),
                                                   (''value'', JsString ''x'')])])]]
     = Returns (JsString (c_str (fst (compile (Grammar [(''start'', Some (Str ''x''))]) ''g''))),
                [(Grammar [(''start'', Some (Str ''x''))], ''g'')]) []"
  by (simp add: evaluate)

text \<open>
  C9. The name is tested before the rules are touched: for every description that is an
  object and whose \<^verbatim>\<open>name\<close> is absent or not a string, \<open>Compile\<close> throws the one exception
  "Expected grammar name to be a string" and returns \<^verbatim>\<open>undefined\<close>, whatever the \<^verbatim>\<open>rules\<close>
  property holds: no exception of the rules or of a rule is thrown, no undefined operation
  on a malformed \<^verbatim>\<open>rules\<close> is reached, and the compiler is not called.
\<close>

theorem Compile_name_before_rules:
  assumes "IsObject js_grammar" and "\<not> IsString (ObjectGet js_grammar ''name'')"
  shows "Compile compile (js_grammar # more_args)
           = Returns (JsUndefined, []) [TypeError ''Expected grammar name to be a string'']"
  using assms by (simp add: Compile_def)

theorem Compile_name_before_rules_witness:
  "IsObject (JsObject [(''rules'', JsNumber ''5'')])
   \<and> \<not> IsString (ObjectGet (JsObject [(''rules'', JsNumber ''5'')]) ''name'')
   \<and> GrammarFromJsGrammar (JsObject [(''rules'', JsNumber ''5'')])
       = Undefined_Behaviour [TypeError ''Expected grammar rules to be an object'']
   \<and> Compile error_compiler [JsObject [(''rules'', JsNumber ''5'')]]
       = Returns (JsUndefined, []) [TypeError ''Expected grammar name to be a string'']"
  using Compile_name_before_rules [of "JsObject [(''rules'', JsNumber ''5'')]" error_compiler "[]"]
  by (simp add: ObjectGet_def GrammarFromJsGrammar_def GetOwnPropertyNames_def)

text \<open>
  C2, as the claim states it, fails. The claim: when the compiler reports a fatal error,
  \<open>Compile\<close> returns the host's "no result" value. The code never looks at the error: with
  a compiler that reports one, on a description whose grammar is assembled, \<open>Compile\<close>
  returns the text all the same.
\<close>

theorem Compile_ignores_compiler_error:
  "GrammarFromJsGrammar (JsObject [(''name'', JsString ''g''),
       (''rules'', JsObject [(''start'', JsObject [(''type'', JsString ''STRING''),
                                                   (''value'', JsString ''x'')])])])
     = Returns (Grammar [(''start'', Some (Str ''x''))], True) []
   \<and> snd (snd (error_compiler (Grammar [(''start'', Some (Str ''x''))]) ''g''))
       = Some (GrammarError ''unresolved conflict'')
   \<and> Compile error_compiler [JsObject [(''name'', JsString ''g''),
       (''rules'', JsObject [(''start'', JsObject [(''type'', JsString ''STRING''),
                                                   (''value'', JsString ''x'')])])]]
     = Returns (JsString ''partial text'', [(Grammar [(''start'', Some (Str ''x''))], ''g'')]) []"
  by (simp add: evaluate error_compiler_def)

text \<open>
  C2, amended. For every description that is an object with a string name and whose
  grammar is successfully assembled (\<^verbatim>\<open>GrammarFromJsGrammar\<close> returns it with the flag
  set, nothing having been thrown), \<open>Compile\<close> calls the compiler once, with that grammar
  and the name, and returns the generated text (as the C string that \<^verbatim>\<open>c_str()\<close> hands
  over) with nothing thrown, whether or not the compiler reports an error.
\<close>

theorem Compile_returns_generated_text:
  assumes "IsObject js_grammar"
    and "ObjectGet js_grammar ''name'' = JsString js_name"
    and "GrammarFromJsGrammar js_grammar = Returns (g, True) []"
  shows "Compile compile (js_grammar # more_args)
           = Returns (JsString (c_str (fst (compile g (c_str js_name)))), [(g, c_str js_name)]) []"
  using assms by (simp add: Compile_def StringFromJsString_def Let_def)

theorem Compile_returns_generated_text_witness:
  "IsObject (JsObject [(''name'', JsString ''arith''),
       (''rules'', JsObject [(''sum'', JsObject [(''type'', JsString ''SEQ''),
          (''members'', JsArray [JsObject [(''type'', JsString ''SYMBOL''), (''name'', JsString ''n'')],
                                 JsObject [(''type'', JsString ''STRING''), (''value'', JsString ''+'')]])]),
         (''n'', JsObject [(''type'', JsString ''PATTERN''), (''value'', JsString ''[0-9]'')])])])
   \<and> ObjectGet (JsObject [(''name'', JsString ''arith''),
       (''rules'', JsObject [(''sum'', JsObject [(''type'', JsString ''SEQ''),
          (''members'', JsArray [JsObject [(''type'', JsString ''SYMBOL''), (''name'', JsString ''n'')],
                                 JsObject [(''type'', JsString ''STRING''), (''value'', JsString ''+'')]])]),
         (''n'', JsObject [(''type'', JsString ''PATTERN''), (''value'', JsString ''[0-9]'')])])])
        ''name'' = JsString ''arith''
   \<and> GrammarFromJsGrammar (JsObject [(''name'', JsString ''arith''),
       (''rules'', JsObject [(''sum'', JsObject [(''type'', JsString ''SEQ''),
          (''members'', JsArray [JsObject [(''type'', JsString ''SYMBOL''), (''name'', JsString ''n'')],
                                 JsObject [(''type'', JsString ''STRING''), (''value'', JsString ''+'')]])]),
         (''n'', JsObject [(''type'', JsString ''PATTERN''), (''value'', JsString ''[0-9]'')])])])
       = Returns (Grammar [(''sum'', Some (Seq [Some (Sym ''n''), Some (Str ''+'')])),
                           (''n'', Some (Pattern ''[0-9]''))], True) []
   \<and> Compile naming_compiler [JsObject [(''name'', JsString ''arith''),
       (''rules'', JsObject [(''sum'', JsObject [(''type'', JsString ''SEQ''),
          (''members'', JsArray [JsObject [(''type'', JsString ''SYMBOL''), (''name'', JsString ''n'')],
                                 JsObject [(''type'', JsString ''STRING''), (''value'', JsString ''+'')]])]),
         (''n'', JsObject [(''type'', JsString ''PATTERN''), (''value'', JsString ''[0-9]'')])])]]
       = Returns (JsString ''parser of arith'',
                  [(Grammar [(''sum'', Some (Seq [Some (Sym ''n''), Some (Str ''+'')])),
                             (''n'', Some (Pattern ''[0-9]''))], ''arith'')]) []
   \<and> Compile error_compiler [JsObject [(''name'', JsString ''arith''),
       (''rules'', JsObject [(''sum'', JsObject [(''type'', JsString ''SEQ''),
          (''members'', JsArray [JsObject [(''type'', JsString ''SYMBOL''), (''name'', JsString ''n'')],
                                 JsObject [(''type'', JsString ''STRING''), (''value'', JsString ''+'')]])]),
         (''n'', JsObject [(''type'', JsString ''PATTERN''), (''value'', JsString ''[0-9]'')])])]]
       = Returns (JsString ''partial text'',
                  [(Grammar [(''sum'', Some (Seq [Some (Sym ''n''), Some (Str ''+'')])),
                             (''n'', Some (Pattern ''[0-9]''))], ''arith'')]) []"
  using Compile_returns_generated_text
    [of "JsObject [(''name'', JsString ''arith''),
       (''rules'', JsObject [(''sum'', JsObject [(''type'', JsString ''SEQ''),
          (''members'', JsArray [JsObject [(''type'', JsString ''SYMBOL''), (''name'', JsString ''n'')],
                                 JsObject [(''type'', JsString ''STRING''), (''value'', JsString ''+'')]])]),
         (''n'', JsObject [(''type'', JsString ''PATTERN''), (''value'', JsString ''[0-9]'')])])]"
        "''arith''"
        "Grammar [(''sum'', Some (Seq [Some (Sym ''n''), Some (Str ''+'')])),
                  (''n'', Some (Pattern ''[0-9]''))]"
        naming_compiler "[]"]
    Compile_returns_generated_text
    [of "JsObject [(''name'', JsString ''arith''),
       (''rules'', JsObject [(''sum'', JsObject [(''type'', JsString ''SEQ''),
          (''members'', JsArray [JsObject [(''type'', JsString ''SYMBOL''), (''name'', JsString ''n'')],
                                 JsObject [(''type'', JsString ''STRING''), (''value'', JsString ''+'')]])]),
         (''n'', JsObject [(''type'', JsString ''PATTERN''), (''value'', JsString ''[0-9]'')])])]"
        "''arith''"
        "Grammar [(''sum'', Some (Seq [Some (Sym ''n''), Some (Str ''+'')])),
                  (''n'', Some (Pattern ''[0-9]''))]"
        error_compiler "[]"]
  by (simp add: evaluate naming_compiler_def error_compiler_def)

end
